theory Spec2Isabelle
  imports Main
begin

section \<open>Python values\<close>

text \<open>
  The module \<^verbatim>\<open>pserver/oauth/oauth.py\<close> handles the claims of decoded tokens, which are
  JSON documents. A JSON object is kept as an association list with distinct keys, in the
  order of the dictionary; \<open>JNull\<close> is Python's \<^verbatim>\<open>None\<close>. JSON numbers are integers here:
  fractional numbers are outside this development.
\<close>

datatype json =
    JNull
  | JBool bool
  | JInt int
  | JStr string
  | JList "json list"
  | JObj "(string \<times> json) list"

type_synonym pydict = "(string \<times> json) list"

text \<open>The exceptions of \<^verbatim>\<open>jwt\<close> that the module names or lets through.\<close>

datatype jwt_error =
    DecodeError
  | ExpiredSignatureError
  | InvalidIssuedAtError
  | ImmatureSignatureError
  | InvalidTokenError

datatype exn =
    KeyError
  | TypeError
  | AttributeError
  | UnicodeEncodeError
  | ClientError
  | JwtError jwt_error


text \<open>
  Python's \<^verbatim>\<open>==\<close> on such values: \<^verbatim>\<open>True == 1\<close> and \<^verbatim>\<open>False == 0\<close> hold, strings are
  compared character by character, lists position by position, dictionaries key by key.
\<close>

fun py_eq :: "json \<Rightarrow> json \<Rightarrow> bool"
  and py_eq_list :: "json list \<Rightarrow> json list \<Rightarrow> bool"
  and py_eq_items :: "(string \<times> json) list \<Rightarrow> (string \<times> json) list \<Rightarrow> bool" where
  "py_eq JNull b = (case b of JNull \<Rightarrow> True | _ \<Rightarrow> False)"
| "py_eq (JBool x) b =
     (case b of JBool y \<Rightarrow> x = y | JInt j \<Rightarrow> (if x then 1 else 0) = j | _ \<Rightarrow> False)"
| "py_eq (JInt i) b =
     (case b of JBool y \<Rightarrow> i = (if y then 1 else 0) | JInt j \<Rightarrow> i = j | _ \<Rightarrow> False)"
| "py_eq (JStr s) b = (case b of JStr t \<Rightarrow> s = t | _ \<Rightarrow> False)"
| "py_eq (JList xs) b = (case b of JList ys \<Rightarrow> py_eq_list xs ys | _ \<Rightarrow> False)"
| "py_eq (JObj kvs) b =
     (case b of JObj kws \<Rightarrow> length kvs = length kws \<and> py_eq_items kvs kws | _ \<Rightarrow> False)"
| "py_eq_list [] ys = (ys = [])"
| "py_eq_list (x # xs) ys =
     (case ys of [] \<Rightarrow> False | y # ys' \<Rightarrow> py_eq x y \<and> py_eq_list xs ys')"
| "py_eq_items [] kws = True"
| "py_eq_items ((k, v) # kvs) kws =
     (case map_of kws k of None \<Rightarrow> False | Some w \<Rightarrow> py_eq v w \<and> py_eq_items kvs kws)"

text \<open>\<^verbatim>\<open>x > now\<close> against an integer: numbers compare, anything else is a \<^verbatim>\<open>TypeError\<close>.\<close>

fun py_gt :: "json \<Rightarrow> int \<Rightarrow> exn + bool" where
  "py_gt (JInt i) n = Inr (n < i)"
| "py_gt (JBool b) n = Inr (n < (if b then 1 else 0))"
| "py_gt _ n = Inl TypeError"

text \<open>\<^verbatim>\<open>d[k]\<close> on a dictionary, and on any value; \<^verbatim>\<open>v.items()\<close>.\<close>

definition getitem :: "pydict \<Rightarrow> string \<Rightarrow> exn + json" where
  "getitem d k = (case map_of d k of None \<Rightarrow> Inl KeyError | Some v \<Rightarrow> Inr v)"

fun subscript :: "json \<Rightarrow> string \<Rightarrow> exn + json" where
  "subscript (JObj d) k = getitem d k"
| "subscript _ k = Inl TypeError"


section \<open>Strings\<close>

text \<open>
  A character below 128 is an ASCII character; the others stand for the code points that
  \<^verbatim>\<open>encode('ascii')\<close> rejects. \<^verbatim>\<open>str.lower\<close> is modelled on the ASCII letters; no other
  character lowers to a letter of \<^verbatim>\<open>bearer\<close>.
\<close>

definition lower_char :: "char \<Rightarrow> char" where
  "lower_char c =
     (case map_of (zip ''ABCDEFGHIJKLMNOPQRSTUVWXYZ'' ''abcdefghijklmnopqrstuvwxyz'') c of
        Some l \<Rightarrow> l
      | None \<Rightarrow> c)"

definition lower :: "string \<Rightarrow> string" where
  "lower s = map lower_char s"

definition is_ascii :: "string \<Rightarrow> bool" where
  "is_ascii s = list_all (\<lambda>c. (of_char c :: nat) < 128) s"

text \<open>\<^verbatim>\<open>s.partition(sep)\<close> for a separator of one character.\<close>

definition partition_str :: "char \<Rightarrow> string \<Rightarrow> string \<times> string \<times> string" where
  "partition_str sep s =
     (if sep \<in> set s
      then (takeWhile (\<lambda>c. c \<noteq> sep) s, [sep], tl (dropWhile (\<lambda>c. c \<noteq> sep) s))
      else (s, [], []))"

section \<open>The world outside the module\<close>

text \<open>
  \<^verbatim>\<open>jwt.decode\<close> and the HTTP client belong to third-party libraries. They are parameters:
  a decoder that receives the verification options, the current time, the raw token, the
  secret and the accepted algorithms, and an authority that answers the \<open>n\<close>-th outbound
  request of the process. The clock is read once per operation.
\<close>

record jwt_options =
  verify_signature :: bool
  verify_exp :: bool
  verify_nbf :: bool
  verify_iat :: bool
  verify_aud :: bool

definition default_options :: jwt_options where
  "default_options =
     \<lparr>verify_signature = True, verify_exp = True, verify_nbf = True,
      verify_iat = True, verify_aud = True\<rparr>"

text \<open>The options dictionary of the module, and how the decoder lays it over its defaults.\<close>

definition NON_IAT_VERIFY :: "(string \<times> bool) list" where
  "NON_IAT_VERIFY = [(''verify_iat'', False)]"

definition merge_options :: "jwt_options \<Rightarrow> (string \<times> bool) list \<Rightarrow> jwt_options" where
  "merge_options d ovr =
     \<lparr>verify_signature = (case map_of ovr ''verify_signature'' of Some b \<Rightarrow> b | None \<Rightarrow> verify_signature d),
      verify_exp = (case map_of ovr ''verify_exp'' of Some b \<Rightarrow> b | None \<Rightarrow> verify_exp d),
      verify_nbf = (case map_of ovr ''verify_nbf'' of Some b \<Rightarrow> b | None \<Rightarrow> verify_nbf d),
      verify_iat = (case map_of ovr ''verify_iat'' of Some b \<Rightarrow> b | None \<Rightarrow> verify_iat d),
      verify_aud = (case map_of ovr ''verify_aud'' of Some b \<Rightarrow> b | None \<Rightarrow> verify_aud d)\<rparr>"

record request =
  req_method :: string
  req_url :: string
  req_params :: pydict

datatype response = Response int string | ConnectionFailed

record world =
  jwt_decode :: "jwt_options \<Rightarrow> int \<Rightarrow> string \<Rightarrow> string \<Rightarrow> string list \<Rightarrow> jwt_error + pydict"
  net :: "nat \<Rightarrow> request \<Rightarrow> response"

section \<open>The OAuth utility\<close>

definition REST_API :: "(string \<times> string \<times> string) list" where
  "REST_API =
     [(''getAuthCode'', ''POST'', ''get_authorization_code''),
      (''getAuthToken'', ''POST'', ''get_auth_token''),
      (''searchUser'', ''POST'', ''search_user''),
      (''validToken'', ''POST'', ''valid_token''),
      (''getUser'', ''POST'', ''get_user''),
      (''getGroup'', ''POST'', ''get_group''),
      (''getScopeUsers'', ''GET'', ''get_users''),
      (''getScopes'', ''GET'', ''get_scopes''),
      (''grantGlobalRoles'', ''POST'', ''grant_scope_roles''),
      (''revokeGlobalRoles'', ''POST'', ''deny_scope_roles'')]"

text \<open>
  The object of class \<^verbatim>\<open>OAuth\<close>: its settings and the attribute \<^verbatim>\<open>_service_token\<close>
  (\<open>held_token\<close>; \<open>None\<close> after \<^verbatim>\<open>initialize\<close> has reset it). The state of the process is
  that object and the outbound requests made so far.
\<close>

record oauth =
  server :: string
  jwt_secret :: string
  jwt_algorithm :: string
  client_id :: string
  client_password :: string
  held_token :: "pydict option"

record sys =
  utility :: oauth
  sent :: "request list"

text \<open>
  The body of the \<^verbatim>\<open>try\<close> in \<^verbatim>\<open>call_auth\<close> (the same text in the GET and the POST branch):
  decode, and on \<^verbatim>\<open>InvalidIssuedAtError\<close> decode again with \<^verbatim>\<open>NON_IAT_VERIFY\<close>. Whatever
  else the decoder raises leaves \<^verbatim>\<open>call_auth\<close>.
\<close>

definition decode_body :: "world \<Rightarrow> int \<Rightarrow> oauth \<Rightarrow> string \<Rightarrow> exn + pydict" where
  "decode_body w now self body =
     (case jwt_decode w default_options now body (jwt_secret self) [jwt_algorithm self] of
        Inr claims \<Rightarrow> Inr claims
      | Inl InvalidIssuedAtError \<Rightarrow>
          (case jwt_decode w (merge_options default_options NON_IAT_VERIFY) now body
                  (jwt_secret self) [jwt_algorithm self] of
             Inr claims \<Rightarrow> Inr claims
           | Inl e \<Rightarrow> Inl (JwtError e))
      | Inl e \<Rightarrow> Inl (JwtError e))"

text \<open>
  \<^verbatim>\<open>call_auth(call, params)\<close>; every caller in the module leaves \<^verbatim>\<open>future\<close> at \<^verbatim>\<open>None\<close>, so
  the result is returned. The result is \<open>None\<close> for a status other than 200.
\<close>

definition send :: "world \<Rightarrow> request \<Rightarrow> sys \<Rightarrow> response \<times> sys" where
  "send w req s = (net w (length (sent s)) req, s\<lparr>sent := sent s @ [req]\<rparr>)"

definition call_auth ::
  "world \<Rightarrow> int \<Rightarrow> string \<Rightarrow> pydict \<Rightarrow> sys \<Rightarrow> (exn + pydict option) \<times> sys" where
  "call_auth w now call params s =
     (case map_of REST_API call of
        None \<Rightarrow> (Inl KeyError, s)
      | Some (method, url) \<Rightarrow>
          if method = ''GET'' then
            (case send w \<lparr>req_method = ''GET'', req_url = server (utility s) @ url,
                          req_params = params\<rparr> s of
               (ConnectionFailed, s') \<Rightarrow> (Inl ClientError, s')
             | (Response status body, s') \<Rightarrow>
                 if status = 200 then
                   (case decode_body w now (utility s') body of
                      Inl e \<Rightarrow> (Inl e, s')
                    | Inr claims \<Rightarrow> (Inr (Some claims), s'))
                 else (Inr None, s'))
          else if method = ''POST'' then
            (case send w \<lparr>req_method = ''POST'', req_url = server (utility s) @ url,
                          req_params = params\<rparr> s of
               (ConnectionFailed, s') \<Rightarrow> (Inl ClientError, s')
             | (Response status body, s') \<Rightarrow>
                 if status = 200 then
                   (case decode_body w now (utility s') body of
                      Inl e \<Rightarrow> (Inl e, s')
                    | Inr claims \<Rightarrow> (Inr (Some claims), s'))
                 else (Inr None, s'))
          else (Inr None, s))"

text \<open>
  The property \<^verbatim>\<open>service_token\<close>. The value returned is a JSON value; \<open>JNull\<close> is the
  \<^verbatim>\<open>return None\<close> of the last line. \<open>token_params\<close> is the dictionary passed to
  \<^verbatim>\<open>getAuthToken\<close>; \<open>obtain_token\<close> is the accessor from \<^verbatim>\<open>SERVICE TOKEN OBTAIN\<close> on, which
  is reached when no token is held, when the held dictionary is empty and when its \<^verbatim>\<open>exp\<close>
  is not after the current time. A token stored without the key \<^verbatim>\<open>service_token\<close> stays
  stored although the \<^verbatim>\<open>return\<close> raises.
\<close>

definition token_params :: "oauth \<Rightarrow> pydict" where
  "token_params self =
     [(''client_id'', JStr (client_id self)),
      (''client_secret'', JStr (client_password self)),
      (''grant_type'', JStr ''service'')]"

definition obtain_token :: "world \<Rightarrow> int \<Rightarrow> sys \<Rightarrow> (exn + json) \<times> sys" where
  "obtain_token w now s =
     (case call_auth w now ''getAuthToken'' (token_params (utility s)) s of
        (Inl e, s') \<Rightarrow> (Inl e, s')
      | (Inr None, s') \<Rightarrow> (Inr JNull, s')
      | (Inr (Some result), s') \<Rightarrow>
          if result \<noteq> [] then
            (getitem result ''service_token'',
             s'\<lparr>utility := (utility s')\<lparr>held_token := Some result\<rparr>\<rparr>)
          else (Inr JNull, s'))"

definition service_token :: "world \<Rightarrow> int \<Rightarrow> sys \<Rightarrow> (exn + json) \<times> sys" where
  "service_token w now s =
     (case held_token (utility s) of
        None \<Rightarrow> obtain_token w now s
      | Some tok \<Rightarrow>
          if tok \<noteq> [] then
            (case getitem tok ''exp'' of
               Inl e \<Rightarrow> (Inl e, s)
             | Inr exp \<Rightarrow>
                 (case py_gt exp now of
                    Inl e \<Rightarrow> (Inl e, s)
                  | Inr True \<Rightarrow> (getitem tok ''service_token'', s)
                  | Inr False \<Rightarrow> obtain_token w now s))
          else obtain_token w now s)"

text \<open>
  An inbound request: its \<^verbatim>\<open>AUTHORIZATION\<close> header, the id of its site (\<open>None\<close> when the
  request has no \<^verbatim>\<open>site\<close>, so that \<^verbatim>\<open>request.site.id\<close> raises) and \<^verbatim>\<open>_cache_credentials\<close>.
\<close>

record http_request =
  authorization :: "string option"
  site :: "string option"
  cache_credentials :: "string \<rightharpoonup> json"

definition validate_token ::
  "world \<Rightarrow> int \<Rightarrow> http_request \<Rightarrow> json \<Rightarrow> sys \<Rightarrow> (exn + json) \<times> sys" where
  "validate_token w now req token s =
     (case site req of
        None \<Rightarrow> (Inl AttributeError, s)
      | Some scope \<Rightarrow>
          (case held_token (utility s) of
             None \<Rightarrow> (Inl TypeError, s)
           | Some tok \<Rightarrow>
               (case getitem tok ''service_token'' of
                  Inl e \<Rightarrow> (Inl e, s)
                | Inr code \<Rightarrow>
                    (case call_auth w now ''validToken''
                            [(''code'', code), (''token'', token), (''scope'', JStr scope)] s of
                       (Inl e, s') \<Rightarrow> (Inl e, s')
                     | (Inr None, s') \<Rightarrow> (Inr JNull, s')
                     | (Inr (Some result), s') \<Rightarrow>
                         if result \<noteq> [] then
                           (case map_of result ''user'' of
                              Some u \<Rightarrow> (Inr u, s')
                            | None \<Rightarrow> (Inr JNull, s'))
                         else (Inr JNull, s')))))"

section \<open>Credential extraction\<close>

text \<open>
  \<^verbatim>\<open>PloneJWTExtraction.extract_user\<close>. The credentials \<^verbatim>\<open>creds\<close> are a dictionary with the
  keys \<^verbatim>\<open>jwt\<close> and \<^verbatim>\<open>user\<close>. \<open>config\<close> tells whether the constructor found the utility
  (\<^verbatim>\<open>self.config is not None\<close>). The local decode catches \<^verbatim>\<open>DecodeError\<close> only.
\<close>

definition local_decode :: "world \<Rightarrow> int \<Rightarrow> oauth \<Rightarrow> string \<Rightarrow> exn + (string \<rightharpoonup> json)" where
  "local_decode w now cfg encoded_token =
     (if is_ascii encoded_token then
        (case jwt_decode w default_options now encoded_token (jwt_secret cfg)
                [jwt_algorithm cfg] of
           Inr claims \<Rightarrow> Inr [''jwt'' \<mapsto> JObj claims]
         | Inl DecodeError \<Rightarrow> Inr Map.empty
         | Inl e \<Rightarrow> Inl (JwtError e))
      else Inl UnicodeEncodeError)"

definition cross_validate ::
  "world \<Rightarrow> int \<Rightarrow> http_request \<Rightarrow> (string \<rightharpoonup> json) \<Rightarrow> sys
     \<Rightarrow> (exn + (string \<rightharpoonup> json)) \<times> sys" where
  "cross_validate w now req creds s =
     (case creds ''jwt'' of
        None \<Rightarrow> (Inr creds, s)
      | Some j \<Rightarrow>
          (case subscript j ''token'' of
             Inl e \<Rightarrow> (Inl e, s)
           | Inr tok \<Rightarrow>
               (case validate_token w now req tok s of
                  (Inl e, s') \<Rightarrow> (Inl e, s')
                | (Inr validation, s') \<Rightarrow>
                    if validation \<noteq> JNull then
                      (case subscript j ''login'' of
                         Inl e \<Rightarrow> (Inl e, s')
                       | Inr login \<Rightarrow>
                           if py_eq validation login
                           then (Inr (creds(''user'' \<mapsto> validation)), s')
                           else (Inr creds, s'))
                    else (Inr creds, s'))))"

definition extract_user ::
  "world \<Rightarrow> int \<Rightarrow> bool \<Rightarrow> http_request \<Rightarrow> sys
     \<Rightarrow> (exn + (string \<rightharpoonup> json)) \<times> http_request \<times> sys" where
  "extract_user w now config req s =
     (case (case authorization req of
              None \<Rightarrow> (Inr Map.empty, s)
            | Some header_auth \<Rightarrow>
                if config then
                  (case partition_str CHR '' '' header_auth of
                     (schema, _, encoded_token) \<Rightarrow>
                       if lower schema = ''bearer'' then
                         (case local_decode w now (utility s) encoded_token of
                            Inl e \<Rightarrow> (Inl e, s)
                          | Inr creds \<Rightarrow> cross_validate w now req creds s)
                       else (Inr Map.empty, s))
                else (Inr Map.empty, s)) of
        (Inl e, s') \<Rightarrow> (Inl e, req, s')
      | (Inr creds, s') \<Rightarrow>
          (Inr creds, req\<lparr>cache_credentials := cache_credentials req ++ creds\<rparr>, s'))"

section \<open>User resolution\<close>

datatype permission = Allow | Deny | Unset

text \<open>
  The loop of \<^verbatim>\<open>_init_data\<close> overwrites the value of every key it visits, so the keys and
  their order stay and each value is replaced on its own.
\<close>

definition role_setting :: "json \<Rightarrow> permission" where
  "role_setting v =
     (if py_eq v (JInt 1) then Allow else if py_eq v (JInt 0) then Deny else Unset)"

definition map_roles :: "pydict \<Rightarrow> (string \<times> permission) list" where
  "map_roles raw = map (\<lambda>(key, v). (key, role_setting v)) raw"






section \<open>Overlapping invocations of the accessor\<close>

text \<open>
  The event loop runs a coroutine without interruption from one suspension to the next.
  A coroutine that awaits \<^verbatim>\<open>service_token\<close> is suspended at one place, inside \<^verbatim>\<open>call_auth\<close>,
  while it waits for the answer to its request; other coroutines run meanwhile. The
  accessor is therefore cut in two: \<open>service_token_begin\<close> runs up to the request of
  \<^verbatim>\<open>getAuthToken\<close> (or to an early return), \<open>service_token_end\<close> runs from the answer to the
  \<^verbatim>\<open>return\<close>. \<open>overlapped\<close> is the run of two invocations in which the second begins while
  the first waits.
\<close>

datatype pending = Returned "exn + json" | Awaiting nat request

definition obtain_token_begin :: "sys \<Rightarrow> pending \<times> sys" where
  "obtain_token_begin s =
     (Awaiting (length (sent s))
        \<lparr>req_method = ''POST'', req_url = server (utility s) @ ''get_auth_token'',
         req_params = token_params (utility s)\<rparr>,
      s\<lparr>sent := sent s @
          [\<lparr>req_method = ''POST'', req_url = server (utility s) @ ''get_auth_token'',
            req_params = token_params (utility s)\<rparr>]\<rparr>)"

definition service_token_begin :: "int \<Rightarrow> sys \<Rightarrow> pending \<times> sys" where
  "service_token_begin now s =
     (case held_token (utility s) of
        None \<Rightarrow> obtain_token_begin s
      | Some tok \<Rightarrow>
          if tok \<noteq> [] then
            (case getitem tok ''exp'' of
               Inl e \<Rightarrow> (Returned (Inl e), s)
             | Inr exp \<Rightarrow>
                 (case py_gt exp now of
                    Inl e \<Rightarrow> (Returned (Inl e), s)
                  | Inr True \<Rightarrow> (Returned (getitem tok ''service_token''), s)
                  | Inr False \<Rightarrow> obtain_token_begin s))
          else obtain_token_begin s)"

definition service_token_end ::
  "world \<Rightarrow> int \<Rightarrow> pending \<Rightarrow> sys \<Rightarrow> (exn + json) \<times> sys" where
  "service_token_end w now p s =
     (case p of
        Returned r \<Rightarrow> (r, s)
      | Awaiting n req \<Rightarrow>
          (case net w n req of
             ConnectionFailed \<Rightarrow> (Inl ClientError, s)
           | Response status body \<Rightarrow>
               if status = 200 then
                 (case decode_body w now (utility s) body of
                    Inl e \<Rightarrow> (Inl e, s)
                  | Inr result \<Rightarrow>
                      if result \<noteq> [] then
                        (getitem result ''service_token'',
                         s\<lparr>utility := (utility s)\<lparr>held_token := Some result\<rparr>\<rparr>)
                      else (Inr JNull, s))
               else (Inr JNull, s)))"

definition overlapped ::
  "world \<Rightarrow> int \<Rightarrow> sys \<Rightarrow> (exn + json) \<times> (exn + json) \<times> sys" where
  "overlapped w now s =
     (case service_token_begin now s of (a, sa) \<Rightarrow>
      case service_token_begin now sa of (b, sb) \<Rightarrow>
      case service_token_end w now a sb of (ra, sc) \<Rightarrow>
      case service_token_end w now b sc of (rb, sd) \<Rightarrow> (ra, rb, sd))"

section \<open>A decoder and an authority for concrete runs\<close>

text \<open>
  The theorems below hold for every decoder and every authority. To run the module on
  concrete requests, a decoder in the manner of PyJWT is fixed here: a table tells which
  raw strings are tokens, the key and algorithm that signed each and its payload; the
  signature is checked first, then \<^verbatim>\<open>iat\<close>, then \<^verbatim>\<open>exp\<close>, each check under its option. The
  authority answers by URL.
\<close>

definition table_decode ::
  "(string \<times> string \<times> string \<times> pydict) list
     \<Rightarrow> jwt_options \<Rightarrow> int \<Rightarrow> string \<Rightarrow> string \<Rightarrow> string list \<Rightarrow> jwt_error + pydict" where
  "table_decode table opts now raw secret algorithms =
     (case map_of table raw of
        None \<Rightarrow> Inl DecodeError
      | Some (key, alg, payload) \<Rightarrow>
          if verify_signature opts \<and> \<not> (key = secret \<and> alg \<in> set algorithms)
          then Inl DecodeError
          else if verify_iat opts \<and>
                  (case map_of payload ''iat'' of Some (JInt i) \<Rightarrow> now < i | _ \<Rightarrow> False)
          then Inl InvalidIssuedAtError
          else if verify_exp opts \<and>
                  (case map_of payload ''exp'' of Some (JInt e) \<Rightarrow> e < now | _ \<Rightarrow> False)
          then Inl ExpiredSignatureError
          else Inr payload)"

definition authority :: "(string \<times> response) list \<Rightarrow> nat \<Rightarrow> request \<Rightarrow> response" where
  "authority routes n req =
     (case map_of routes (req_url req) of Some r \<Rightarrow> r | None \<Rightarrow> Response 404 [])"

definition settings0 :: oauth where
  "settings0 =
     \<lparr>server = ''https://auth.example/'', jwt_secret = ''secret'', jwt_algorithm = ''HS256'',
      client_id = ''plone'', client_password = ''pw'', held_token = None\<rparr>"

definition sys0 :: sys where
  "sys0 = \<lparr>utility = settings0, sent = []\<rparr>"

text \<open>The state after the service token \<^verbatim>\<open>T1\<close>, expiring at 4600, has been stored.\<close>

definition sys1 :: sys where
  "sys1 = \<lparr>utility = settings0\<lparr>held_token :=
            Some [(''service_token'', JStr ''T1''), (''exp'', JInt 4600)]\<rparr>, sent = []\<rparr>"

definition tokens0 :: "(string \<times> string \<times> string \<times> pydict) list" where
  "tokens0 =
     [(''svc'', ''secret'', ''HS256'',
         [(''service_token'', JStr ''T1''), (''exp'', JInt 4600)]),
      (''skewed'', ''secret'', ''HS256'',
         [(''service_token'', JStr ''T2''), (''exp'', JInt 4600), (''iat'', JInt 1005)]),
      (''forged'', ''other'', ''HS256'',
         [(''service_token'', JStr ''T3''), (''exp'', JInt 4600)]),
      (''expired'', ''secret'', ''HS256'',
         [(''login'', JStr ''alice''), (''token'', JStr ''tok1''), (''exp'', JInt 900)]),
      (''alice'', ''secret'', ''HS256'',
         [(''login'', JStr ''alice''), (''token'', JStr ''tok1'')]),
      (''nologin'', ''secret'', ''HS256'', [(''token'', JStr ''tok1'')]),
      (''notoken'', ''secret'', ''HS256'', [(''login'', JStr ''alice'')]),
      (''is.alice'', ''secret'', ''HS256'', [(''user'', JStr ''alice'')]),
      (''is.bob'', ''secret'', ''HS256'', [(''user'', JStr ''bob'')]),
      (''editor2'', ''secret'', ''HS256'',
         [(''result'', JObj [(''roles'', JObj [(''editor'', JInt 2)]),
                             (''groups'', JObj [(''staff'', JInt 1)]),
                             (''name'', JStr ''Alice A.'')])]),
      (''noroles'', ''secret'', ''HS256'',
         [(''result'', JObj [(''roles'', JObj []),
                             (''groups'', JObj [(''staff'', JInt 1)]),
                             (''name'', JStr ''Alice A.'')])])]"

definition world0 :: "(string \<times> response) list \<Rightarrow> world" where
  "world0 routes = \<lparr>jwt_decode = table_decode tokens0, net = authority routes\<rparr>"

definition bearer :: "string \<Rightarrow> http_request" where
  "bearer raw =
     \<lparr>authorization = Some (''Bearer '' @ raw), site = Some ''plone'',
      cache_credentials = Map.empty\<rparr>"

text \<open>The state after \<^verbatim>\<open>validate_token\<close> has asked the authority about \<^verbatim>\<open>tok1\<close>.\<close>

definition sys2 :: sys where
  "sys2 = sys1\<lparr>sent :=
     [\<lparr>req_method = ''POST'', req_url = ''https://auth.example/valid_token'',
       req_params = [(''code'', JStr ''T1''), (''token'', JStr ''tok1''),
                     (''scope'', JStr ''plone'')]\<rparr>]\<rparr>"



section \<open>Properties\<close>

subsection \<open>Facts about the operation table and the role loop\<close>

lemma REST_API_method:
  "map_of REST_API call = Some (method, url) \<Longrightarrow> method = ''GET'' \<or> method = ''POST''"
  by (auto simp: REST_API_def split: if_splits)

lemma role_setting_int:
  "role_setting (JInt i) = (if i = 1 then Allow else if i = 0 then Deny else Unset)"
  by (simp add: role_setting_def)

lemma map_of_map_roles:
  "map_of (map_roles raw) key = map_option role_setting (map_of raw key)"
  by (induction raw) (auto simp: map_roles_def)

lemma map_roles_keys: "map fst (map_roles raw) = map fst raw"
  by (induction raw) (auto simp: map_roles_def)

lemma map_roles_reorder:
  assumes "distinct (map fst raw)" "distinct (map fst raw')" "set raw' = set raw"
  shows "map_of (map_roles raw') = map_of (map_roles raw)"
proof
  fix key
  have "map_of raw' = map_of raw"
    using assms by (simp add: map_of_inject_set)
  then show "map_of (map_roles raw') key = map_of (map_roles raw) key"
    by (simp add: map_of_map_roles)
qed

subsection \<open>The role-mapping policy\<close>

text \<open>
  Claim C5. The translation of a role value is a function of that value alone, defined on
  every integer: 1 gives \<open>Allow\<close>, 0 gives \<open>Deny\<close>, every other integer gives \<open>Unset\<close>. The
  loop keeps the keys, translates the value of each key on its own, and two role maps with
  the same entries in a different order translate to the same mapping. There is no error
  result: \<open>role_setting\<close> and \<open>map_roles\<close> return a permission and a list of them.
\<close>

theorem role_mapping_policy:
  "role_setting (JInt 1) = Allow \<and> role_setting (JInt 0) = Deny
   \<and> (i \<noteq> 1 \<and> i \<noteq> 0 \<longrightarrow> role_setting (JInt i) = Unset)
   \<and> map fst (map_roles raw) = map fst raw
   \<and> map_of (map_roles raw) key = map_option role_setting (map_of raw key)
   \<and> (distinct (map fst raw) \<and> distinct (map fst raw') \<and> set raw' = set raw
        \<longrightarrow> map_of (map_roles raw') = map_of (map_roles raw))"
  using map_roles_reorder [of raw raw']
  by (simp add: role_setting_int map_of_map_roles map_roles_keys)

theorem role_mapping_policy_witness:
  "((2::int) \<noteq> 1 \<and> (2::int) \<noteq> 0)
   \<and> distinct (map fst [(''manager'', JInt 1), (''editor'', JInt 2)])
   \<and> distinct (map fst [(''editor'', JInt 2), (''manager'', JInt 1)])
   \<and> set [(''editor'', JInt 2), (''manager'', JInt 1)] =
       set [(''manager'', JInt 1), (''editor'', JInt 2)]
   \<and> role_setting (JInt 2) = Unset
   \<and> map_of (map_roles [(''manager'', JInt 1), (''editor'', JInt 2)]) ''editor'' = Some Unset
   \<and> map_of (map_roles [(''editor'', JInt 2), (''manager'', JInt 1)]) =
       map_of (map_roles [(''manager'', JInt 1), (''editor'', JInt 2)])"
  using role_mapping_policy [of 2 "[(''manager'', JInt 1), (''editor'', JInt 2)]" "''editor''"
      "[(''editor'', JInt 2), (''manager'', JInt 1)]"]
  by (auto simp: role_setting_int)

subsection \<open>Validation without a service token\<close>

text \<open>
  Claim C9. \<^verbatim>\<open>validate_token\<close> reads \<^verbatim>\<open>self._service_token['service_token']\<close> as it is: when
  no service token is held, it raises (a \<^verbatim>\<open>TypeError\<close> for a request that has a site), it
  does not return \<^verbatim>\<open>None\<close>, it sends no request and it acquires no token.
\<close>

theorem validate_token_needs_service_token:
  "held_token (utility s) = None \<Longrightarrow>
     validate_token w now req token s =
       (Inl (case site req of None \<Rightarrow> AttributeError | Some scope \<Rightarrow> TypeError), s)"
  by (simp add: validate_token_def split: option.splits)

theorem validate_token_needs_service_token_witness:
  "held_token (utility sys0) = None \<and>
   validate_token (world0 []) 1000 (bearer ''alice'') (JStr ''tok1'') sys0 = (Inl TypeError, sys0)"
  using validate_token_needs_service_token
          [of sys0 "world0 []" 1000 "bearer ''alice''" "JStr ''tok1''"]
  by (simp add: sys0_def settings0_def bearer_def)

subsection \<open>Decoding the answer of the authority\<close>

lemma call_auth_200:
  assumes "map_of REST_API call = Some (method, url)"
    and "net w (length (sent s))
           \<lparr>req_method = method, req_url = server (utility s) @ url, req_params = params\<rparr>
         = Response 200 body"
  shows "call_auth w now call params s =
           (case decode_body w now (utility s) body of
              Inl e \<Rightarrow> Inl e | Inr claims \<Rightarrow> Inr (Some claims),
            s\<lparr>sent := sent s @ [\<lparr>req_method = method, req_url = server (utility s) @ url,
                                   req_params = params\<rparr>]\<rparr>)"
  using assms REST_API_method [OF assms(1)]
  by (auto simp: call_auth_def send_def split: sum.splits)

lemma NON_IAT_VERIFY_options:
  "merge_options default_options NON_IAT_VERIFY =
     \<lparr>verify_signature = True, verify_exp = True, verify_nbf = True,
      verify_iat = False, verify_aud = True\<rparr>"
  by (simp add: merge_options_def default_options_def NON_IAT_VERIFY_def)

text \<open>
  Claim C3. For an answer of status 200: when the first decode raises
  \<^verbatim>\<open>InvalidIssuedAtError\<close>, the result of \<^verbatim>\<open>call_auth\<close> is that of one second decode, made
  with the signature and the expiry still verified and the issued-at check off, so a body
  that this second decode accepts is returned; when the first decode raises anything else,
  that exception leaves \<^verbatim>\<open>call_auth\<close> and the second decode plays no part.
\<close>

theorem call_auth_clock_skew_retry:
  assumes "map_of REST_API call = Some (method, url)"
    and "net w (length (sent s))
           \<lparr>req_method = method, req_url = server (utility s) @ url, req_params = params\<rparr>
         = Response 200 body"
  shows "(jwt_decode w default_options now body (jwt_secret (utility s))
            [jwt_algorithm (utility s)] = Inl InvalidIssuedAtError \<longrightarrow>
          fst (call_auth w now call params s) =
            (case jwt_decode w (merge_options default_options NON_IAT_VERIFY) now body
                    (jwt_secret (utility s)) [jwt_algorithm (utility s)] of
               Inr claims \<Rightarrow> Inr (Some claims)
             | Inl e \<Rightarrow> Inl (JwtError e)))
       \<and> (\<forall>e. jwt_decode w default_options now body (jwt_secret (utility s))
                 [jwt_algorithm (utility s)] = Inl e \<and> e \<noteq> InvalidIssuedAtError \<longrightarrow>
               fst (call_auth w now call params s) = Inl (JwtError e))
       \<and> verify_signature (merge_options default_options NON_IAT_VERIFY)
       \<and> verify_exp (merge_options default_options NON_IAT_VERIFY)
       \<and> \<not> verify_iat (merge_options default_options NON_IAT_VERIFY)"
proof -
  let ?first = "jwt_decode w default_options now body (jwt_secret (utility s))
                  [jwt_algorithm (utility s)]"
  let ?second = "jwt_decode w (merge_options default_options NON_IAT_VERIFY) now body
                   (jwt_secret (utility s)) [jwt_algorithm (utility s)]"
  have result: "fst (call_auth w now call params s) =
      (case decode_body w now (utility s) body of
         Inl e \<Rightarrow> Inl e | Inr claims \<Rightarrow> Inr (Some claims))"
    by (simp add: call_auth_200 [OF assms])
  have retried: "fst (call_auth w now call params s) =
      (case ?second of Inr claims \<Rightarrow> Inr (Some claims) | Inl e \<Rightarrow> Inl (JwtError e))"
    if "?first = Inl InvalidIssuedAtError"
    using that by (simp add: result decode_body_def split: sum.splits)
  have terminal: "fst (call_auth w now call params s) = Inl (JwtError e)"
    if "?first = Inl e" "e \<noteq> InvalidIssuedAtError" for e
    using that by (simp add: result decode_body_def split: jwt_error.splits)
  show ?thesis
    using retried terminal by (simp add: NON_IAT_VERIFY_options)
qed

text \<open>
  The witness: the authority answers \<^verbatim>\<open>getAuthToken\<close> with a token issued five seconds
  ahead of the local clock, which is accepted through the second decode; and with a token
  signed with another key, which is refused.
\<close>

theorem call_auth_clock_skew_retry_witness:
  "map_of REST_API ''getAuthToken'' = Some (''POST'', ''get_auth_token'')
   \<and> net (world0 [(''https://auth.example/get_auth_token'', Response 200 ''skewed'')])
       (length (sent sys0))
       \<lparr>req_method = ''POST'', req_url = server (utility sys0) @ ''get_auth_token'',
        req_params = token_params (utility sys0)\<rparr> = Response 200 ''skewed''
   \<and> jwt_decode (world0 [(''https://auth.example/get_auth_token'', Response 200 ''skewed'')])
       default_options 1000 ''skewed'' (jwt_secret (utility sys0)) [jwt_algorithm (utility sys0)]
       = Inl InvalidIssuedAtError
   \<and> fst (call_auth (world0 [(''https://auth.example/get_auth_token'', Response 200 ''skewed'')])
            1000 ''getAuthToken'' (token_params (utility sys0)) sys0) =
       Inr (Some [(''service_token'', JStr ''T2''), (''exp'', JInt 4600), (''iat'', JInt 1005)])
   \<and> net (world0 [(''https://auth.example/get_auth_token'', Response 200 ''forged'')])
       (length (sent sys0))
       \<lparr>req_method = ''POST'', req_url = server (utility sys0) @ ''get_auth_token'',
        req_params = token_params (utility sys0)\<rparr> = Response 200 ''forged''
   \<and> jwt_decode (world0 [(''https://auth.example/get_auth_token'', Response 200 ''forged'')])
       default_options 1000 ''forged'' (jwt_secret (utility sys0)) [jwt_algorithm (utility sys0)]
       = Inl DecodeError
   \<and> fst (call_auth (world0 [(''https://auth.example/get_auth_token'', Response 200 ''forged'')])
            1000 ''getAuthToken'' (token_params (utility sys0)) sys0) =
       Inl (JwtError DecodeError)"
proof -
  let ?w = "world0 [(''https://auth.example/get_auth_token'', Response 200 ''skewed'')]"
  let ?f = "world0 [(''https://auth.example/get_auth_token'', Response 200 ''forged'')]"
  let ?req = "\<lparr>req_method = ''POST'', req_url = server (utility sys0) @ ''get_auth_token'',
        req_params = token_params (utility sys0)\<rparr>"
  have api: "map_of REST_API ''getAuthToken'' = Some (''POST'', ''get_auth_token'')"
    by (simp add: REST_API_def)
  have resp: "net ?w (length (sent sys0)) ?req = Response 200 ''skewed''"
    by (simp add: world0_def authority_def sys0_def settings0_def)
  have d1: "jwt_decode ?w default_options 1000 ''skewed'' (jwt_secret (utility sys0))
       [jwt_algorithm (utility sys0)] = Inl InvalidIssuedAtError"
    by (simp add: world0_def table_decode_def tokens0_def default_options_def sys0_def
        settings0_def)
  have d2: "jwt_decode ?w (merge_options default_options NON_IAT_VERIFY) 1000 ''skewed''
       (jwt_secret (utility sys0)) [jwt_algorithm (utility sys0)] =
       Inr [(''service_token'', JStr ''T2''), (''exp'', JInt 4600), (''iat'', JInt 1005)]"
    by (simp add: world0_def table_decode_def tokens0_def NON_IAT_VERIFY_options sys0_def
        settings0_def)
  have respf: "net ?f (length (sent sys0)) ?req = Response 200 ''forged''"
    by (simp add: world0_def authority_def sys0_def settings0_def)
  have d3: "jwt_decode ?f default_options 1000 ''forged'' (jwt_secret (utility sys0))
       [jwt_algorithm (utility sys0)] = Inl DecodeError"
    by (simp add: world0_def table_decode_def tokens0_def default_options_def sys0_def
        settings0_def)
  show ?thesis
    using call_auth_clock_skew_retry [OF api resp, of 1000]
      call_auth_clock_skew_retry [OF api respf, of 1000] api resp d1 d2 respf d3
    by simp
qed

subsection \<open>The service token\<close>

lemma call_auth_getAuthToken:
  "call_auth w now ''getAuthToken'' params s =
     (case net w (length (sent s))
             \<lparr>req_method = ''POST'', req_url = server (utility s) @ ''get_auth_token'',
              req_params = params\<rparr> of
        ConnectionFailed \<Rightarrow> Inl ClientError
      | Response status body \<Rightarrow>
          if status = 200 then
            (case decode_body w now (utility s) body of
               Inl e \<Rightarrow> Inl e | Inr claims \<Rightarrow> Inr (Some claims))
          else Inr None,
      s\<lparr>sent := sent s @ [\<lparr>req_method = ''POST'', req_url = server (utility s) @ ''get_auth_token'',
              req_params = params\<rparr>]\<rparr>)"
  by (simp add: call_auth_def REST_API_def send_def split: response.splits sum.splits)

lemma obtain_token_sent:
  "sent (snd (obtain_token w now s)) =
     sent s @ [\<lparr>req_method = ''POST'', req_url = server (utility s) @ ''get_auth_token'',
                req_params = token_params (utility s)\<rparr>]"
  by (simp add: obtain_token_def call_auth_getAuthToken
      split: response.splits sum.splits option.splits)

lemma obtain_token_stored:
  assumes "net w (length (sent s))
             \<lparr>req_method = ''POST'', req_url = server (utility s) @ ''get_auth_token'',
              req_params = token_params (utility s)\<rparr> = Response 200 body"
    and "decode_body w now (utility s) body = Inr result"
    and "result \<noteq> []" and "map_of result ''service_token'' = Some v"
  shows "obtain_token w now s =
           (Inr v, \<lparr>utility = (utility s)\<lparr>held_token := Some result\<rparr>,
                    sent = sent s @ [\<lparr>req_method = ''POST'',
                       req_url = server (utility s) @ ''get_auth_token'',
                       req_params = token_params (utility s)\<rparr>]\<rparr>)"
  using assms by (simp add: obtain_token_def call_auth_getAuthToken getitem_def)

lemma service_token_stale:
  assumes "held_token (utility s) = None \<or> held_token (utility s) = Some []
        \<or> (held_token (utility s) = Some tok \<and> map_of tok ''exp'' = Some (JInt e) \<and> e \<le> now)"
  shows "service_token w now s = obtain_token w now s"
  using assms by (auto simp: service_token_def getitem_def)

text \<open>
  Claim C2. When a service token is held and its \<^verbatim>\<open>exp\<close> is strictly after the current time,
  the accessor returns the value of that token and the state, the list of requests sent
  included, is as before. When no token is held, or the held token's \<^verbatim>\<open>exp\<close> is not after the
  current time, the accessor sends one request, the POST of \<^verbatim>\<open>getAuthToken\<close> with the
  configured client id and client secret; the result of a successful call is stored as the
  held token and its value is returned.
\<close>

theorem service_token_accessor:
  "(held_token (utility s) = Some tok \<and> tok \<noteq> [] \<and> map_of tok ''exp'' = Some (JInt e)
      \<and> now < e \<and> map_of tok ''service_token'' = Some v
      \<longrightarrow> service_token w now s = (Inr v, s))
   \<and> ((held_token (utility s) = None \<or> held_token (utility s) = Some []
        \<or> (held_token (utility s) = Some tok \<and> map_of tok ''exp'' = Some (JInt e) \<and> e \<le> now))
      \<longrightarrow> sent (snd (service_token w now s)) =
            sent s @ [\<lparr>req_method = ''POST'', req_url = server (utility s) @ ''get_auth_token'',
                       req_params = [(''client_id'', JStr (client_id (utility s))),
                                     (''client_secret'', JStr (client_password (utility s))),
                                     (''grant_type'', JStr ''service'')]\<rparr>]
        \<and> (\<forall>body result r.
              net w (length (sent s))
                \<lparr>req_method = ''POST'', req_url = server (utility s) @ ''get_auth_token'',
                 req_params = [(''client_id'', JStr (client_id (utility s))),
                               (''client_secret'', JStr (client_password (utility s))),
                               (''grant_type'', JStr ''service'')]\<rparr> = Response 200 body
              \<and> decode_body w now (utility s) body = Inr result
              \<and> result \<noteq> [] \<and> map_of result ''service_token'' = Some r
              \<longrightarrow> service_token w now s =
                    (Inr r, \<lparr>utility = (utility s)\<lparr>held_token := Some result\<rparr>,
                             sent = sent s @ [\<lparr>req_method = ''POST'',
                               req_url = server (utility s) @ ''get_auth_token'',
                               req_params = [(''client_id'', JStr (client_id (utility s))),
                                     (''client_secret'', JStr (client_password (utility s))),
                                     (''grant_type'', JStr ''service'')]\<rparr>]\<rparr>)))"
proof (intro conjI impI allI)
  assume "held_token (utility s) = Some tok \<and> tok \<noteq> [] \<and> map_of tok ''exp'' = Some (JInt e)
      \<and> now < e \<and> map_of tok ''service_token'' = Some v"
  then show "service_token w now s = (Inr v, s)"
    by (simp add: service_token_def getitem_def)
next
  assume stale: "held_token (utility s) = None \<or> held_token (utility s) = Some []
        \<or> (held_token (utility s) = Some tok \<and> map_of tok ''exp'' = Some (JInt e) \<and> e \<le> now)"
  show "sent (snd (service_token w now s)) =
            sent s @ [\<lparr>req_method = ''POST'', req_url = server (utility s) @ ''get_auth_token'',
                       req_params = [(''client_id'', JStr (client_id (utility s))),
                                     (''client_secret'', JStr (client_password (utility s))),
                                     (''grant_type'', JStr ''service'')]\<rparr>]"
    using obtain_token_sent [of w now s]
    by (simp add: service_token_stale [OF stale] token_params_def)
next
  fix body result r
  assume stale: "held_token (utility s) = None \<or> held_token (utility s) = Some []
        \<or> (held_token (utility s) = Some tok \<and> map_of tok ''exp'' = Some (JInt e) \<and> e \<le> now)"
  assume "net w (length (sent s))
                \<lparr>req_method = ''POST'', req_url = server (utility s) @ ''get_auth_token'',
                 req_params = [(''client_id'', JStr (client_id (utility s))),
                               (''client_secret'', JStr (client_password (utility s))),
                               (''grant_type'', JStr ''service'')]\<rparr> = Response 200 body
              \<and> decode_body w now (utility s) body = Inr result
              \<and> result \<noteq> [] \<and> map_of result ''service_token'' = Some r"
  then show "service_token w now s =
                    (Inr r, \<lparr>utility = (utility s)\<lparr>held_token := Some result\<rparr>,
                             sent = sent s @ [\<lparr>req_method = ''POST'',
                               req_url = server (utility s) @ ''get_auth_token'',
                               req_params = [(''client_id'', JStr (client_id (utility s))),
                                     (''client_secret'', JStr (client_password (utility s))),
                                     (''grant_type'', JStr ''service'')]\<rparr>]\<rparr>)"
    using obtain_token_stored [of w s body now result r]
    by (simp add: service_token_stale [OF stale] token_params_def)
qed


text \<open>
  The witness: with \<^verbatim>\<open>T1\<close> held until 4600 the accessor answers at time 2000 without a
  request; with nothing held it obtains \<^verbatim>\<open>T1\<close> at time 1000 and holds it.
\<close>

theorem service_token_accessor_witness:
  "held_token (utility sys1) = Some [(''service_token'', JStr ''T1''), (''exp'', JInt 4600)]
   \<and> [(''service_token'', JStr ''T1''), (''exp'', JInt 4600)] \<noteq> []
   \<and> map_of [(''service_token'', JStr ''T1''), (''exp'', JInt 4600)] ''exp'' = Some (JInt 4600)
   \<and> (2000::int) < 4600
   \<and> map_of [(''service_token'', JStr ''T1''), (''exp'', JInt 4600)] ''service_token''
       = Some (JStr ''T1'')
   \<and> service_token (world0 []) 2000 sys1 = (Inr (JStr ''T1''), sys1)
   \<and> held_token (utility sys0) = None
   \<and> net (world0 [(''https://auth.example/get_auth_token'', Response 200 ''svc'')])
        (length (sent sys0))
        \<lparr>req_method = ''POST'', req_url = server (utility sys0) @ ''get_auth_token'',
         req_params = [(''client_id'', JStr (client_id (utility sys0))),
                       (''client_secret'', JStr (client_password (utility sys0))),
                       (''grant_type'', JStr ''service'')]\<rparr> = Response 200 ''svc''
   \<and> decode_body (world0 [(''https://auth.example/get_auth_token'', Response 200 ''svc'')])
        1000 (utility sys0) ''svc'' = Inr [(''service_token'', JStr ''T1''), (''exp'', JInt 4600)]
   \<and> service_token (world0 [(''https://auth.example/get_auth_token'', Response 200 ''svc'')])
        1000 sys0 =
       (Inr (JStr ''T1''),
        sys1\<lparr>sent := [\<lparr>req_method = ''POST'',
                         req_url = ''https://auth.example/get_auth_token'',
                         req_params = [(''client_id'', JStr ''plone''),
                                       (''client_secret'', JStr ''pw''),
                                       (''grant_type'', JStr ''service'')]\<rparr>]\<rparr>)"
proof -
  let ?tok = "[(''service_token'', JStr ''T1''), (''exp'', JInt 4600)]"
  let ?w = "world0 [(''https://auth.example/get_auth_token'', Response 200 ''svc'')]"
  have held: "held_token (utility sys1) = Some ?tok"
    by (simp add: sys1_def)
  have none: "held_token (utility sys0) = None"
    by (simp add: sys0_def settings0_def)
  have resp: "net ?w (length (sent sys0))
        \<lparr>req_method = ''POST'', req_url = server (utility sys0) @ ''get_auth_token'',
         req_params = [(''client_id'', JStr (client_id (utility sys0))),
                       (''client_secret'', JStr (client_password (utility sys0))),
                       (''grant_type'', JStr ''service'')]\<rparr> = Response 200 ''svc''"
    by (simp add: world0_def authority_def sys0_def settings0_def)
  have dec: "decode_body ?w 1000 (utility sys0) ''svc'' = Inr ?tok"
    by (simp add: decode_body_def world0_def table_decode_def tokens0_def default_options_def
        sys0_def settings0_def)
  have fresh: "service_token (world0 []) 2000 sys1 = (Inr (JStr ''T1''), sys1)"
    using service_token_accessor [of sys1 ?tok 4600 2000 "JStr ''T1''" "world0 []"] held
    by simp
  have renewed: "service_token ?w 1000 sys0 =
       (Inr (JStr ''T1''),
        sys1\<lparr>sent := [\<lparr>req_method = ''POST'',
                         req_url = ''https://auth.example/get_auth_token'',
                         req_params = [(''client_id'', JStr ''plone''),
                                       (''client_secret'', JStr ''pw''),
                                       (''grant_type'', JStr ''service'')]\<rparr>]\<rparr>)"
    using service_token_accessor [of sys0 ?tok 4600 1000 "JStr ''T1''" ?w] none resp dec
    by (simp add: sys0_def sys1_def settings0_def)
  show ?thesis
    using held none resp dec fresh renewed by simp
qed

text \<open>
  Claim C7 says that the accessor fails with an explicit error when the issuing call returns
  no result. It does not: for an authority that answers 500, the accessor returns \<^verbatim>\<open>None\<close>.
\<close>

theorem service_token_issue_failure_counterexample:
  "fst (call_auth (world0 [(''https://auth.example/get_auth_token'', Response 500 ''down'')])
          1000 ''getAuthToken'' (token_params (utility sys0)) sys0) = Inr None
   \<and> fst (service_token (world0 [(''https://auth.example/get_auth_token'', Response 500 ''down'')])
          1000 sys0) = Inr JNull"
  by (simp add: service_token_def obtain_token_def call_auth_getAuthToken world0_def
      authority_def sys0_def settings0_def token_params_def)

text \<open>
  Claim C7, amended. When a renewal is due and the issuing call returns no result (a status
  other than 200, or an empty claims map), the accessor raises nothing: it returns \<^verbatim>\<open>None\<close>
  and leaves the utility, the held token included, as it was.
\<close>

theorem service_token_issue_failure:
  assumes "held_token (utility s) = None \<or> held_token (utility s) = Some []
        \<or> (held_token (utility s) = Some tok \<and> map_of tok ''exp'' = Some (JInt e) \<and> e \<le> now)"
    and "fst (call_auth w now ''getAuthToken'' (token_params (utility s)) s) = Inr r"
    and "r = None \<or> r = Some []"
  shows "fst (service_token w now s) = Inr JNull
       \<and> utility (snd (service_token w now s)) = utility s"
proof -
  obtain s' where call: "call_auth w now ''getAuthToken'' (token_params (utility s)) s = (Inr r, s')"
    using assms(2) by (cases "call_auth w now ''getAuthToken'' (token_params (utility s)) s") simp
  have "utility s' = utility s"
    using call by (auto simp: call_auth_getAuthToken)
  then show ?thesis
    using call assms(3) by (auto simp: service_token_stale [OF assms(1)] obtain_token_def)
qed

theorem service_token_issue_failure_witness:
  "held_token (utility sys0) = None
   \<and> fst (call_auth (world0 [(''https://auth.example/get_auth_token'', Response 500 ''down'')])
          1000 ''getAuthToken'' (token_params (utility sys0)) sys0) = Inr None
   \<and> fst (service_token (world0 [(''https://auth.example/get_auth_token'', Response 500 ''down'')])
          1000 sys0) = Inr JNull
   \<and> utility (snd (service_token
          (world0 [(''https://auth.example/get_auth_token'', Response 500 ''down'')])
          1000 sys0)) = utility sys0"
proof -
  let ?w = "world0 [(''https://auth.example/get_auth_token'', Response 500 ''down'')]"
  have none: "held_token (utility sys0) = None"
    by (simp add: sys0_def settings0_def)
  have call: "fst (call_auth ?w 1000 ''getAuthToken'' (token_params (utility sys0)) sys0) = Inr None"
    by (simp add: call_auth_getAuthToken world0_def authority_def sys0_def settings0_def
        token_params_def)
  show ?thesis
    using service_token_issue_failure [of sys0 _ _ 1000 ?w None] none call by simp
qed

subsection \<open>Credential extraction\<close>

lemma extract_user_bearer:
  assumes "authorization req = Some h" "config"
    and "partition_str CHR '' '' h = (schema, sep, encoded_token)"
    and "lower schema = ''bearer''"
  shows "extract_user w now config req s =
           (case (case local_decode w now (utility s) encoded_token of
                    Inl e \<Rightarrow> (Inl e, s)
                  | Inr creds \<Rightarrow> cross_validate w now req creds s) of
              (Inl e, s') \<Rightarrow> (Inl e, req, s')
            | (Inr creds, s') \<Rightarrow>
                (Inr creds, req\<lparr>cache_credentials := cache_credentials req ++ creds\<rparr>, s'))"
  using assms by (simp add: extract_user_def)

lemma extract_user_decoded:
  assumes "authorization req = Some h" "config"
    and "partition_str CHR '' '' h = (schema, sep, encoded_token)"
    and "lower schema = ''bearer''" "is_ascii encoded_token"
    and "jwt_decode w default_options now encoded_token (jwt_secret (utility s))
           [jwt_algorithm (utility s)] = Inr claims"
  shows "extract_user w now config req s =
           (case cross_validate w now req [''jwt'' \<mapsto> JObj claims] s of
              (Inl e, s') \<Rightarrow> (Inl e, req, s')
            | (Inr creds, s') \<Rightarrow>
                (Inr creds, req\<lparr>cache_credentials := cache_credentials req ++ creds\<rparr>, s'))"
  using assms(5,6) by (simp add: extract_user_bearer [OF assms(1-4)] local_decode_def)

lemma py_eq_JStr: "py_eq (JStr u) x = (x = JStr u)"
  by (cases x) auto

text \<open>
  Claim C1. For a bearer token whose local decode yields the claims \<^verbatim>\<open>token\<close> and \<^verbatim>\<open>login\<close>,
  and a remote validation that returns the user \<open>u\<close>: the credentials returned by
  \<^verbatim>\<open>extract_user\<close> have the key \<^verbatim>\<open>user\<close> exactly when \<open>u\<close> equals the decoded \<^verbatim>\<open>login\<close>, and
  then its value is \<open>u\<close>; for every other pair they hold the decoded claims only, and a
  request cache that had no \<^verbatim>\<open>user\<close> before has none after the update.
\<close>

theorem extract_user_cross_validation:
  assumes "authorization req = Some h" "config"
    and "partition_str CHR '' '' h = (schema, sep, encoded_token)"
    and "lower schema = ''bearer''" "is_ascii encoded_token"
    and "jwt_decode w default_options now encoded_token (jwt_secret (utility s))
           [jwt_algorithm (utility s)] = Inr claims"
    and "map_of claims ''token'' = Some tok" "map_of claims ''login'' = Some login"
    and "validate_token w now req tok s = (Inr (JStr u), s')"
  shows "\<exists>creds. extract_user w now config req s =
             (Inr creds, req\<lparr>cache_credentials := cache_credentials req ++ creds\<rparr>, s')
           \<and> creds ''jwt'' = Some (JObj claims)
           \<and> (''user'' \<in> dom creds \<longleftrightarrow> login = JStr u)
           \<and> (login = JStr u \<longrightarrow> creds ''user'' = Some (JStr u))
           \<and> (login \<noteq> JStr u \<and> cache_credentials req ''user'' = None
                \<longrightarrow> (cache_credentials req ++ creds) ''user'' = None)"
proof -
  have cv: "cross_validate w now req [''jwt'' \<mapsto> JObj claims] s =
      (Inr (if login = JStr u then [''jwt'' \<mapsto> JObj claims, ''user'' \<mapsto> JStr u]
            else [''jwt'' \<mapsto> JObj claims]), s')"
    using assms(7-9) by (simp add: cross_validate_def getitem_def py_eq_JStr del: py_eq.simps)
  show ?thesis
    by (simp add: extract_user_decoded [OF assms(1-6)] cv map_add_def)
qed

text \<open>Concrete runs of the validation, for the witnesses.\<close>

lemma call_auth_validToken:
  "call_auth w now ''validToken'' params s =
     (case net w (length (sent s))
             \<lparr>req_method = ''POST'', req_url = server (utility s) @ ''valid_token'',
              req_params = params\<rparr> of
        ConnectionFailed \<Rightarrow> Inl ClientError
      | Response status body \<Rightarrow>
          if status = 200 then
            (case decode_body w now (utility s) body of
               Inl e \<Rightarrow> Inl e | Inr claims \<Rightarrow> Inr (Some claims))
          else Inr None,
      s\<lparr>sent := sent s @ [\<lparr>req_method = ''POST'', req_url = server (utility s) @ ''valid_token'',
              req_params = params\<rparr>]\<rparr>)"
  by (simp add: call_auth_def REST_API_def send_def split: response.splits sum.splits)


lemma bearer_header:
  "authorization (bearer raw) = Some (''Bearer '' @ raw)"
  by (simp add: bearer_def)

lemma lower_Bearer: "lower ''Bearer'' = ''bearer''"
  by (simp add: lower_def lower_char_def)

lemma world0_decode:
  "jwt_decode (world0 routes) opts now raw (jwt_secret (utility sys1))
     [jwt_algorithm (utility sys1)] = table_decode tokens0 opts now raw ''secret'' [''HS256'']"
  by (simp add: world0_def sys1_def settings0_def)

lemma validate_token_sys1:
  "validate_token (world0 routes) 1000 (bearer raw) (JStr ''tok1'') sys1 =
     (case authority routes 0
             \<lparr>req_method = ''POST'', req_url = ''https://auth.example/valid_token'',
              req_params = [(''code'', JStr ''T1''), (''token'', JStr ''tok1''),
                            (''scope'', JStr ''plone'')]\<rparr> of
        ConnectionFailed \<Rightarrow> Inl ClientError
      | Response status body \<Rightarrow>
          if status = 200 then
            (case decode_body (world0 routes) 1000 (utility sys1) body of
               Inl e \<Rightarrow> Inl e
             | Inr result \<Rightarrow>
                 if result \<noteq> [] then
                   (case map_of result ''user'' of Some u \<Rightarrow> Inr u | None \<Rightarrow> Inr JNull)
                 else Inr JNull)
          else Inr JNull, sys2)"
  by (simp add: validate_token_def call_auth_validToken bearer_def sys1_def sys2_def
      settings0_def getitem_def world0_def split: response.splits sum.splits option.splits)

lemma validate_is_alice:
  "validate_token (world0 [(''https://auth.example/valid_token'', Response 200 ''is.alice'')])
     1000 (bearer raw) (JStr ''tok1'') sys1 = (Inr (JStr ''alice''), sys2)"
  by (simp add: validate_token_sys1 authority_def decode_body_def world0_decode
      table_decode_def tokens0_def default_options_def)

lemma validate_is_bob:
  "validate_token (world0 [(''https://auth.example/valid_token'', Response 200 ''is.bob'')])
     1000 (bearer raw) (JStr ''tok1'') sys1 = (Inr (JStr ''bob''), sys2)"
  by (simp add: validate_token_sys1 authority_def decode_body_def world0_decode
      table_decode_def tokens0_def default_options_def)

lemma validate_unanswered:
  "validate_token (world0 []) 1000 (bearer raw) (JStr ''tok1'') sys1 = (Inr JNull, sys2)"
  by (simp add: validate_token_sys1 authority_def)

lemma decode_alice:
  "jwt_decode (world0 routes) default_options 1000 ''alice'' (jwt_secret (utility sys1))
     [jwt_algorithm (utility sys1)] = Inr [(''login'', JStr ''alice''), (''token'', JStr ''tok1'')]"
  by (simp add: world0_decode table_decode_def tokens0_def default_options_def)

text \<open>
  The witness: the token of \<^verbatim>\<open>alice\<close> validated as \<^verbatim>\<open>alice\<close> gives a validated login; the
  same token validated as \<^verbatim>\<open>bob\<close> gives none.
\<close>

theorem extract_user_cross_validation_witness:
  "authorization (bearer ''alice'') = Some (''Bearer '' @ ''alice'')
   \<and> partition_str CHR '' '' (''Bearer '' @ ''alice'') = (''Bearer'', '' '', ''alice'')
   \<and> lower ''Bearer'' = ''bearer'' \<and> is_ascii ''alice''
   \<and> validate_token (world0 [(''https://auth.example/valid_token'', Response 200 ''is.alice'')])
        1000 (bearer ''alice'') (JStr ''tok1'') sys1 = (Inr (JStr ''alice''), sys2)
   \<and> fst (extract_user (world0 [(''https://auth.example/valid_token'', Response 200 ''is.alice'')])
        1000 True (bearer ''alice'') sys1) =
       Inr [''jwt'' \<mapsto> JObj [(''login'', JStr ''alice''), (''token'', JStr ''tok1'')],
            ''user'' \<mapsto> JStr ''alice'']
   \<and> validate_token (world0 [(''https://auth.example/valid_token'', Response 200 ''is.bob'')])
        1000 (bearer ''alice'') (JStr ''tok1'') sys1 = (Inr (JStr ''bob''), sys2)
   \<and> fst (extract_user (world0 [(''https://auth.example/valid_token'', Response 200 ''is.bob'')])
        1000 True (bearer ''alice'') sys1) =
       Inr [''jwt'' \<mapsto> JObj [(''login'', JStr ''alice''), (''token'', JStr ''tok1'')]]"
proof -
  let ?a = "world0 [(''https://auth.example/valid_token'', Response 200 ''is.alice'')]"
  let ?b = "world0 [(''https://auth.example/valid_token'', Response 200 ''is.bob'')]"
  let ?claims = "[(''login'', JStr ''alice''), (''token'', JStr ''tok1'')]"
  have part: "partition_str CHR '' '' (''Bearer '' @ ''alice'') = (''Bearer'', '' '', ''alice'')"
    by (simp add: partition_str_def)
  have ascii: "is_ascii ''alice''"
    by (simp add: is_ascii_def)
  have tok: "map_of ?claims ''token'' = Some (JStr ''tok1'')"
    and login: "map_of ?claims ''login'' = Some (JStr ''alice'')"
    by simp_all
  obtain ca where ca: "extract_user ?a 1000 True (bearer ''alice'') sys1 =
        (Inr ca, (bearer ''alice'')\<lparr>cache_credentials :=
                   cache_credentials (bearer ''alice'') ++ ca\<rparr>, sys2)"
      "ca ''jwt'' = Some (JObj ?claims)" "ca ''user'' = Some (JStr ''alice'')"
      "''user'' \<in> dom ca"
    using extract_user_cross_validation [OF bearer_header _ part lower_Bearer ascii
        decode_alice tok login validate_is_alice, of True]
    by auto
  obtain cb where cb: "extract_user ?b 1000 True (bearer ''alice'') sys1 =
        (Inr cb, (bearer ''alice'')\<lparr>cache_credentials :=
                   cache_credentials (bearer ''alice'') ++ cb\<rparr>, sys2)"
      "cb ''jwt'' = Some (JObj ?claims)" "''user'' \<notin> dom cb"
    using extract_user_cross_validation [OF bearer_header _ part lower_Bearer ascii
        decode_alice tok login validate_is_bob, of True]
    by auto
  have "fst (extract_user ?a 1000 True (bearer ''alice'') sys1) =
          Inr [''jwt'' \<mapsto> JObj ?claims, ''user'' \<mapsto> JStr ''alice'']"
    by (simp add: extract_user_decoded [OF bearer_header _ part lower_Bearer ascii decode_alice]
        cross_validate_def getitem_def validate_is_alice)
  moreover have "fst (extract_user ?b 1000 True (bearer ''alice'') sys1) =
          Inr [''jwt'' \<mapsto> JObj ?claims]"
    by (simp add: extract_user_decoded [OF bearer_header _ part lower_Bearer ascii decode_alice]
        cross_validate_def getitem_def validate_is_bob)
  ultimately show ?thesis
    using ca cb part ascii validate_is_alice validate_is_bob
    by (simp add: bearer_header lower_Bearer)
qed




text \<open>
  Claim C10 says that a decoded token without a \<^verbatim>\<open>login\<close> claim makes \<^verbatim>\<open>extract_user\<close> raise
  \<^verbatim>\<open>KeyError\<close>. The \<^verbatim>\<open>login\<close> claim is read only when the remote validation returned a
  user: with an authority that answers 404 the credentials hold the decoded claims and
  nothing is raised.
\<close>

theorem extract_user_missing_claims_counterexample:
  "jwt_decode (world0 []) default_options 1000 ''nologin'' (jwt_secret (utility sys1))
     [jwt_algorithm (utility sys1)] = Inr [(''token'', JStr ''tok1'')]
   \<and> map_of [(''token'', JStr ''tok1'')] ''login'' = None
   \<and> fst (extract_user (world0 []) 1000 True (bearer ''nologin'') sys1) =
       Inr [''jwt'' \<mapsto> JObj [(''token'', JStr ''tok1'')]]"
proof -
  have part: "partition_str CHR '' '' (''Bearer '' @ ''nologin'') = (''Bearer'', '' '', ''nologin'')"
    by (simp add: partition_str_def)
  have ascii: "is_ascii ''nologin''"
    by (simp add: is_ascii_def)
  have dec: "jwt_decode (world0 []) default_options 1000 ''nologin'' (jwt_secret (utility sys1))
     [jwt_algorithm (utility sys1)] = Inr [(''token'', JStr ''tok1'')]"
    by (simp add: world0_decode table_decode_def tokens0_def default_options_def)
  show ?thesis
    using dec
    by (simp add: extract_user_decoded [OF bearer_header _ part lower_Bearer ascii dec]
        cross_validate_def getitem_def validate_unanswered)
qed

text \<open>
  Claim C10, amended. For a bearer token that decodes: when the claims lack \<^verbatim>\<open>token\<close>,
  \<^verbatim>\<open>extract_user\<close> raises \<^verbatim>\<open>KeyError\<close> before any request is sent; when they have \<^verbatim>\<open>token\<close>
  and lack \<^verbatim>\<open>login\<close>, it raises \<^verbatim>\<open>KeyError\<close> exactly when the remote validation returns a
  user, and returns the credentials with the decoded claims alone when the validation
  returns \<^verbatim>\<open>None\<close>.
\<close>

theorem extract_user_missing_claims:
  assumes "authorization req = Some h" "config"
    and "partition_str CHR '' '' h = (schema, sep, encoded_token)"
    and "lower schema = ''bearer''" "is_ascii encoded_token"
    and "jwt_decode w default_options now encoded_token (jwt_secret (utility s))
           [jwt_algorithm (utility s)] = Inr claims"
  shows "(map_of claims ''token'' = None \<longrightarrow>
            extract_user w now config req s = (Inl KeyError, req, s))
       \<and> (\<forall>tok v s'. map_of claims ''token'' = Some tok \<and> map_of claims ''login'' = None
              \<and> validate_token w now req tok s = (Inr v, s') \<longrightarrow>
            extract_user w now config req s =
              (if v \<noteq> JNull then (Inl KeyError, req, s')
               else (Inr [''jwt'' \<mapsto> JObj claims],
                     req\<lparr>cache_credentials :=
                           cache_credentials req ++ [''jwt'' \<mapsto> JObj claims]\<rparr>, s')))"
  by (simp add: extract_user_decoded [OF assms] cross_validate_def getitem_def)

text \<open>
  The witness: a token with the claim \<^verbatim>\<open>login\<close> alone, and a token with the claim
  \<^verbatim>\<open>token\<close> alone that the authority validates as \<^verbatim>\<open>alice\<close>.
\<close>

theorem extract_user_missing_claims_witness:
  "partition_str CHR '' '' (''Bearer '' @ ''notoken'') = (''Bearer'', '' '', ''notoken'')
   \<and> is_ascii ''notoken''
   \<and> jwt_decode (world0 []) default_options 1000 ''notoken'' (jwt_secret (utility sys1))
        [jwt_algorithm (utility sys1)] = Inr [(''login'', JStr ''alice'')]
   \<and> map_of [(''login'', JStr ''alice'')] ''token'' = None
   \<and> extract_user (world0 []) 1000 True (bearer ''notoken'') sys1 =
       (Inl KeyError, bearer ''notoken'', sys1)
   \<and> partition_str CHR '' '' (''Bearer '' @ ''nologin'') = (''Bearer'', '' '', ''nologin'')
   \<and> is_ascii ''nologin''
   \<and> jwt_decode (world0 [(''https://auth.example/valid_token'', Response 200 ''is.alice'')])
        default_options 1000 ''nologin'' (jwt_secret (utility sys1))
        [jwt_algorithm (utility sys1)] = Inr [(''token'', JStr ''tok1'')]
   \<and> map_of [(''token'', JStr ''tok1'')] ''token'' = Some (JStr ''tok1'')
   \<and> map_of [(''token'', JStr ''tok1'')] ''login'' = None
   \<and> validate_token (world0 [(''https://auth.example/valid_token'', Response 200 ''is.alice'')])
        1000 (bearer ''nologin'') (JStr ''tok1'') sys1 = (Inr (JStr ''alice''), sys2)
   \<and> extract_user (world0 [(''https://auth.example/valid_token'', Response 200 ''is.alice'')])
        1000 True (bearer ''nologin'') sys1 = (Inl KeyError, bearer ''nologin'', sys2)"
proof -
  let ?a = "world0 [(''https://auth.example/valid_token'', Response 200 ''is.alice'')]"
  have p1: "partition_str CHR '' '' (''Bearer '' @ ''notoken'') = (''Bearer'', '' '', ''notoken'')"
    by (simp add: partition_str_def)
  have a1: "is_ascii ''notoken''"
    by (simp add: is_ascii_def)
  have d1: "jwt_decode (world0 []) default_options 1000 ''notoken'' (jwt_secret (utility sys1))
        [jwt_algorithm (utility sys1)] = Inr [(''login'', JStr ''alice'')]"
    by (simp add: world0_decode table_decode_def tokens0_def default_options_def)
  have p2: "partition_str CHR '' '' (''Bearer '' @ ''nologin'') = (''Bearer'', '' '', ''nologin'')"
    by (simp add: partition_str_def)
  have a2: "is_ascii ''nologin''"
    by (simp add: is_ascii_def)
  have d2: "jwt_decode ?a default_options 1000 ''nologin'' (jwt_secret (utility sys1))
        [jwt_algorithm (utility sys1)] = Inr [(''token'', JStr ''tok1'')]"
    by (simp add: world0_decode table_decode_def tokens0_def default_options_def)
  have r1: "extract_user (world0 []) 1000 True (bearer ''notoken'') sys1 =
       (Inl KeyError, bearer ''notoken'', sys1)"
    using extract_user_missing_claims [OF bearer_header _ p1 lower_Bearer a1 d1, of True]
    by simp
  have r2: "extract_user ?a 1000 True (bearer ''nologin'') sys1 =
       (Inl KeyError, bearer ''nologin'', sys2)"
    using extract_user_missing_claims [OF bearer_header _ p2 lower_Bearer a2 d2, of True]
      validate_is_alice [of "''nologin''"]
    by simp
  show ?thesis
    using p1 a1 d1 p2 a2 d2 r1 r2 validate_is_alice [of "''nologin''"] by simp
qed

subsection \<open>User resolution\<close>













subsection \<open>Two invocations of the accessor\<close>

text \<open>
  The two halves, run one after the other, are the accessor.
\<close>

lemma obtain_token_split:
  "obtain_token w now s =
     (case obtain_token_begin s of (p, s') \<Rightarrow> service_token_end w now p s')"
  by (simp add: obtain_token_def obtain_token_begin_def service_token_end_def
      call_auth_getAuthToken split: response.splits sum.splits)

lemma service_token_split:
  "service_token w now s =
     (case service_token_begin now s of (p, s') \<Rightarrow> service_token_end w now p s')"
  by (simp add: service_token_def service_token_begin_def obtain_token_split
      split: option.splits sum.splits bool.splits)
    (simp add: service_token_end_def)

lemma service_token_begin_stale:
  assumes "held_token (utility s) = None \<or> held_token (utility s) = Some []
        \<or> (held_token (utility s) = Some tok \<and> map_of tok ''exp'' = Some (JInt e) \<and> e \<le> now)"
  shows "service_token_begin now s = obtain_token_begin s"
  using assms by (auto simp: service_token_begin_def getitem_def)

lemma service_token_end_sent: "sent (snd (service_token_end w now p s)) = sent s"
  by (simp add: service_token_end_def getitem_def
      split: pending.splits response.splits sum.splits option.splits)

lemma overlapped_sent:
  "sent (snd (snd (overlapped w now s))) =
     sent (snd (service_token_begin now (snd (service_token_begin now s))))"
  by (simp add: overlapped_def service_token_end_sent split: prod.splits)
    (metis service_token_end_sent snd_conv)


lemma obtain_token_begin_twice:
  "sent (snd (obtain_token_begin (snd (obtain_token_begin s)))) =
     sent s @
       [\<lparr>req_method = ''POST'', req_url = server (utility s) @ ''get_auth_token'',
         req_params = token_params (utility s)\<rparr>,
        \<lparr>req_method = ''POST'', req_url = server (utility s) @ ''get_auth_token'',
         req_params = token_params (utility s)\<rparr>]"
  by (simp add: obtain_token_begin_def)

lemma obtain_token_begin_utility: "utility (snd (obtain_token_begin s)) = utility s"
  by (simp add: obtain_token_begin_def)

text \<open>
  Claim C8 says that concurrent invocations made while no fresh token is held send at most
  one \<^verbatim>\<open>getAuthToken\<close> request. The accessor has no guard: when the second invocation begins
  while the first waits for its answer, the token is still absent and a second request is
  sent.
\<close>

theorem service_token_overlap_counterexample:
  "held_token (utility sys0) = None
   \<and> overlapped (world0 [(''https://auth.example/get_auth_token'', Response 200 ''svc'')])
        1000 sys0 =
       (Inr (JStr ''T1''), Inr (JStr ''T1''),
        sys1\<lparr>sent :=
          [\<lparr>req_method = ''POST'', req_url = ''https://auth.example/get_auth_token'',
            req_params = [(''client_id'', JStr ''plone''), (''client_secret'', JStr ''pw''),
                          (''grant_type'', JStr ''service'')]\<rparr>,
           \<lparr>req_method = ''POST'', req_url = ''https://auth.example/get_auth_token'',
            req_params = [(''client_id'', JStr ''plone''), (''client_secret'', JStr ''pw''),
                          (''grant_type'', JStr ''service'')]\<rparr>]\<rparr>)"
  by (simp add: overlapped_def service_token_begin_def obtain_token_begin_def
      service_token_end_def sys0_def sys1_def settings0_def token_params_def world0_def
      authority_def decode_body_def table_decode_def tokens0_def default_options_def
      getitem_def)

text \<open>
  Claim C8, amended. When a renewal is due, two invocations of which the second begins
  before the first has received its answer send two \<^verbatim>\<open>getAuthToken\<close> requests, one each.
  Only one request is sent when the second invocation starts after the first has returned
  and stored a token that is still fresh: the second then returns the stored value.
\<close>

theorem service_token_overlap:
  assumes "held_token (utility s) = None \<or> held_token (utility s) = Some []
        \<or> (held_token (utility s) = Some tok \<and> map_of tok ''exp'' = Some (JInt e) \<and> e \<le> now)"
  shows "sent (snd (snd (overlapped w now s))) =
           sent s @
             [\<lparr>req_method = ''POST'', req_url = server (utility s) @ ''get_auth_token'',
               req_params = token_params (utility s)\<rparr>,
              \<lparr>req_method = ''POST'', req_url = server (utility s) @ ''get_auth_token'',
               req_params = token_params (utility s)\<rparr>]
       \<and> (\<forall>v s' tok' e' v'.
             service_token w now s = (Inr v, s') \<and> held_token (utility s') = Some tok'
             \<and> tok' \<noteq> [] \<and> map_of tok' ''exp'' = Some (JInt e') \<and> now' < e'
             \<and> map_of tok' ''service_token'' = Some v'
             \<longrightarrow> service_token w now' s' = (Inr v', s')
               \<and> sent s' = sent s @
                    [\<lparr>req_method = ''POST'', req_url = server (utility s) @ ''get_auth_token'',
                      req_params = token_params (utility s)\<rparr>])"
proof (intro conjI allI impI)
  have again: "held_token (utility (snd (obtain_token_begin s))) = None
        \<or> held_token (utility (snd (obtain_token_begin s))) = Some []
        \<or> (held_token (utility (snd (obtain_token_begin s))) = Some tok
             \<and> map_of tok ''exp'' = Some (JInt e) \<and> e \<le> now)"
    using assms by (simp add: obtain_token_begin_utility)
  show "sent (snd (snd (overlapped w now s))) =
           sent s @
             [\<lparr>req_method = ''POST'', req_url = server (utility s) @ ''get_auth_token'',
               req_params = token_params (utility s)\<rparr>,
              \<lparr>req_method = ''POST'', req_url = server (utility s) @ ''get_auth_token'',
               req_params = token_params (utility s)\<rparr>]"
    by (simp add: overlapped_sent service_token_begin_stale [OF assms]
        service_token_begin_stale [OF again] obtain_token_begin_twice)
next
  fix v s' tok' e' v'
  assume h: "service_token w now s = (Inr v, s') \<and> held_token (utility s') = Some tok'
             \<and> tok' \<noteq> [] \<and> map_of tok' ''exp'' = Some (JInt e') \<and> now' < e'
             \<and> map_of tok' ''service_token'' = Some v'"
  then show "service_token w now' s' = (Inr v', s')"
    by (simp add: service_token_def getitem_def)
  show "sent s' = sent s @
          [\<lparr>req_method = ''POST'', req_url = server (utility s) @ ''get_auth_token'',
            req_params = token_params (utility s)\<rparr>]"
    using h obtain_token_sent [of w now s] by (simp add: service_token_stale [OF assms])
qed

text \<open>
  The witness: from the state without a token, the overlapped run and the run of one
  invocation at time 1000 followed by another at time 2000.
\<close>

theorem service_token_overlap_witness:
  "held_token (utility sys0) = None
   \<and> sent (snd (snd (overlapped
        (world0 [(''https://auth.example/get_auth_token'', Response 200 ''svc'')]) 1000 sys0))) =
       sent sys0 @
         [\<lparr>req_method = ''POST'', req_url = server (utility sys0) @ ''get_auth_token'',
           req_params = token_params (utility sys0)\<rparr>,
          \<lparr>req_method = ''POST'', req_url = server (utility sys0) @ ''get_auth_token'',
           req_params = token_params (utility sys0)\<rparr>]
   \<and> service_token (world0 [(''https://auth.example/get_auth_token'', Response 200 ''svc'')])
        1000 sys0 =
       (Inr (JStr ''T1''),
        sys1\<lparr>sent := [\<lparr>req_method = ''POST'',
                         req_url = ''https://auth.example/get_auth_token'',
                         req_params = [(''client_id'', JStr ''plone''),
                                       (''client_secret'', JStr ''pw''),
                                       (''grant_type'', JStr ''service'')]\<rparr>]\<rparr>)
   \<and> service_token (world0 [(''https://auth.example/get_auth_token'', Response 200 ''svc'')])
        2000
        (sys1\<lparr>sent := [\<lparr>req_method = ''POST'',
                         req_url = ''https://auth.example/get_auth_token'',
                         req_params = [(''client_id'', JStr ''plone''),
                                       (''client_secret'', JStr ''pw''),
                                       (''grant_type'', JStr ''service'')]\<rparr>]\<rparr>) =
       (Inr (JStr ''T1''),
        sys1\<lparr>sent := [\<lparr>req_method = ''POST'',
                         req_url = ''https://auth.example/get_auth_token'',
                         req_params = [(''client_id'', JStr ''plone''),
                                       (''client_secret'', JStr ''pw''),
                                       (''grant_type'', JStr ''service'')]\<rparr>]\<rparr>)"
proof -
  let ?w = "world0 [(''https://auth.example/get_auth_token'', Response 200 ''svc'')]"
  let ?s = "sys1\<lparr>sent := [\<lparr>req_method = ''POST'',
                         req_url = ''https://auth.example/get_auth_token'',
                         req_params = [(''client_id'', JStr ''plone''),
                                       (''client_secret'', JStr ''pw''),
                                       (''grant_type'', JStr ''service'')]\<rparr>]\<rparr>"
  let ?tok = "[(''service_token'', JStr ''T1''), (''exp'', JInt 4600)]"
  have none: "held_token (utility sys0) = None"
    by (simp add: sys0_def settings0_def)
  have first: "service_token ?w 1000 sys0 = (Inr (JStr ''T1''), ?s)"
    by (simp add: service_token_def obtain_token_def call_auth_getAuthToken sys0_def sys1_def
        settings0_def token_params_def world0_def authority_def decode_body_def
        table_decode_def tokens0_def default_options_def getitem_def)
  have held: "held_token (utility ?s) = Some ?tok"
    by (simp add: sys1_def)
  note both = service_token_overlap [of sys0 _ _ 1000 ?w 2000, OF disjI1, OF none]
  have two: "sent (snd (snd (overlapped ?w 1000 sys0))) =
       sent sys0 @
         [\<lparr>req_method = ''POST'', req_url = server (utility sys0) @ ''get_auth_token'',
           req_params = token_params (utility sys0)\<rparr>,
          \<lparr>req_method = ''POST'', req_url = server (utility sys0) @ ''get_auth_token'',
           req_params = token_params (utility sys0)\<rparr>]"
    using both by (rule conjunct1)
  have "service_token ?w 1000 sys0 = (Inr (JStr ''T1''), ?s) \<and> held_token (utility ?s) = Some ?tok
             \<and> ?tok \<noteq> [] \<and> map_of ?tok ''exp'' = Some (JInt 4600) \<and> (2000::int) < 4600
             \<and> map_of ?tok ''service_token'' = Some (JStr ''T1'')"
    using first held by simp
  then have second: "service_token ?w 2000 ?s = (Inr (JStr ''T1''), ?s)"
    using both [THEN conjunct2, rule_format, of "JStr ''T1''" ?s ?tok 4600 "JStr ''T1''"]
    by blast
  show ?thesis
    using none two first second by blast
qed

end
